theory Spec2Isabelle
  imports Complex_Main "HOL-Library.Word"
begin

section \<open>JavaScript values used by the dashboards\<close>

text \<open>
  A JavaScript string is a sequence of 16-bit code units. \<open>js\<close> turns a literal of the
  source into that sequence.
\<close>

type_synonym jschar = "16 word"
type_synonym jsstring = "jschar list"

definition js :: "string \<Rightarrow> jsstring" where
  "js s = map of_char s"

text \<open>
  \<open>String.prototype.trim\<close> strips the code units of ECMAScript's WhiteSpace and
  LineTerminator productions from both ends.
\<close>

definition is_white_space :: "jschar \<Rightarrow> bool" where
  "is_white_space c \<longleftrightarrow>
     c \<in> set [0x0009, 0x000A, 0x000B, 0x000C, 0x000D, 0x0020, 0x00A0, 0x1680,
              0x2000, 0x2001, 0x2002, 0x2003, 0x2004, 0x2005, 0x2006, 0x2007,
              0x2008, 0x2009, 0x200A, 0x2028, 0x2029, 0x202F, 0x205F, 0x3000, 0xFEFF]"

definition trim :: "jsstring \<Rightarrow> jsstring" where
  "trim s = rev (dropWhile is_white_space (rev (dropWhile is_white_space s)))"

text \<open>
  The values a handler can meet in a JSON body, plus \<open>undefined\<close>. A number is
  kept by its mathematical value; only its test against zero is ever used.
  \<open>JObj\<close> lists an object's own properties.
\<close>

datatype jsval =
    JUndefined
  | JNull
  | JBool bool
  | JNum rat
  | JStr jsstring
  | JArr "jsval list"
  | JObj "(jsstring \<times> jsval) list"

text \<open>Truthiness, as \<open>!x\<close> and \<open>x || y\<close> test it.\<close>

fun truthy :: "jsval \<Rightarrow> bool" where
  "truthy JUndefined = False"
| "truthy JNull = False"
| "truthy (JBool b) = b"
| "truthy (JNum n) = (n \<noteq> 0)"
| "truthy (JStr s) = (s \<noteq> [])"
| "truthy (JArr xs) = True"
| "truthy (JObj kvs) = True"

definition js_or :: "jsval \<Rightarrow> jsval \<Rightarrow> jsval" where
  "js_or a b = (if truthy a then a else b)"

text \<open>
  What can be thrown here: the TypeError of a property read on \<open>null\<close> or
  \<open>undefined\<close>, or the error object a rejected axios call carries, kept by its
  \<open>response\<close> property (\<open>undefined\<close> when no response arrived).
\<close>

datatype error = TypeError | AxiosError jsval

fun error_response :: "error \<Rightarrow> jsval" where
  "error_response TypeError = JUndefined"
| "error_response (AxiosError r) = r"

text \<open>
  Property reads \<open>v.k\<close> and \<open>v?.k\<close> for the property names the handlers use
  (\<open>data\<close>, \<open>detail\<close>, \<open>response\<close>), none of which a primitive or an array has.
\<close>

fun get_prop :: "jsval \<Rightarrow> jsstring \<Rightarrow> error + jsval" where
  "get_prop JUndefined k = Inl TypeError"
| "get_prop JNull k = Inl TypeError"
| "get_prop (JObj kvs) k = Inr (case map_of kvs k of Some v \<Rightarrow> v | None \<Rightarrow> JUndefined)"
| "get_prop v k = Inr JUndefined"

fun opt_prop :: "jsval \<Rightarrow> jsstring \<Rightarrow> jsval" where
  "opt_prop JUndefined k = JUndefined"
| "opt_prop JNull k = JUndefined"
| "opt_prop (JObj kvs) k = (case map_of kvs k of Some v \<Rightarrow> v | None \<Rightarrow> JUndefined)"
| "opt_prop v k = JUndefined"

text \<open>\<open>error.response?.data?.detail\<close>\<close>

definition error_detail :: "error \<Rightarrow> jsval" where
  "error_detail e = opt_prop (opt_prop (error_response e) (js ''data'')) (js ''detail'')"

text \<open>The decimal digits of a non-negative integer, as a template literal renders it.\<close>

fun decimal :: "nat \<Rightarrow> jsstring" where
  "decimal n = (if n < 10 then [of_nat (48 + n)]
                else decimal (n div 10) @ [of_nat (48 + n mod 10)])"

declare decimal.simps [simp del]

text \<open>
  \<open>Array.prototype.filter\<close> and \<open>map\<close> with a callback that also reads the index;
  the first argument is the index of the head.
\<close>

fun filter_from :: "nat \<Rightarrow> ('a \<Rightarrow> nat \<Rightarrow> bool) \<Rightarrow> 'a list \<Rightarrow> 'a list" where
  "filter_from i p [] = []"
| "filter_from i p (x # xs) =
     (if p x i then x # filter_from (Suc i) p xs else filter_from (Suc i) p xs)"

fun map_from :: "nat \<Rightarrow> ('a \<Rightarrow> nat \<Rightarrow> 'b) \<Rightarrow> 'a list \<Rightarrow> 'b list" where
  "map_from i f [] = []"
| "map_from i f (x # xs) = f x i # map_from (Suc i) f xs"


section \<open>Effects and replies\<close>

text \<open>
  What a handler does to the outside: the requests it dispatches (URL and body; the
  headers come from the excluded token store), dialogs, console output and
  \<open>preventDefault\<close>.
\<close>

datatype effect =
    AxiosPost jsstring jsval
  | AxiosGet jsstring
  | Alert jsval
  | ConsoleLog
  | ConsoleError
  | PreventDefault

text \<open>
  What an awaited axios call settles to: it resolves with a response whose \<open>data\<close>
  is the body, or it rejects with an error.
\<close>

datatype reply = Resolved jsval | Rejected error

text \<open>
  An async handler either returns without reaching its \<open>await\<close>, or is suspended
  there with a request in flight; both carry the state and the effects so far.
\<close>

datatype 's run = Finished 's "effect list" | Awaiting 's "effect list"

fun run_state :: "'s run \<Rightarrow> 's" where
  "run_state (Finished s fx) = s"
| "run_state (Awaiting s fx) = s"

fun run_effects :: "'s run \<Rightarrow> effect list" where
  "run_effects (Finished s fx) = fx"
| "run_effects (Awaiting s fx) = fx"

fun after_effects :: "effect list \<Rightarrow> 's run \<Rightarrow> 's run" where
  "after_effects pre (Finished s fx) = Finished s (pre @ fx)"
| "after_effects pre (Awaiting s fx) = Awaiting s (pre @ fx)"


section \<open>Controller state\<close>

datatype turn_type = User | Assistant | Error

record turn =
  ttype :: turn_type
  message :: jsval

text \<open>The \<open>useState\<close> cells both dashboards have.\<close>

record dashboard =
  activeTab :: jsstring
  chatMessage :: jsstring
  chatHistory :: "turn list"
  loading :: bool
  history :: jsval
  sessionId :: jsstring

record patient = dashboard +
  appointments :: jsval

record slot_draft =
  date :: jsstring
  slots :: "jsstring list"

record doctor = dashboard +
  newSlot :: slot_draft

record key_event =
  key :: jsstring
  shiftKey :: bool

definition process_prompt_url :: jsstring where
  "process_prompt_url = js ''http://localhost:8000/process_prompt''"

definition prompt_history_url :: jsstring where
  "prompt_history_url = js ''http://localhost:8000/prompt_history''"

definition appointments_url :: jsstring where
  "appointments_url = js ''http://localhost:8000/appointments''"


section \<open>PatientDashboard.js\<close>

text \<open>
  The initial state of a mount; \<open>email\<close> is \<open>user.email\<close> as the template literal
  renders it and \<open>now\<close> is \<open>Date.now()\<close>.
\<close>

definition Patient_sessionId :: "jsstring \<Rightarrow> nat \<Rightarrow> jsstring" where
  "Patient_sessionId email now = js ''patient_'' @ email @ js ''_'' @ decimal now"

definition Patient_init :: "jsstring \<Rightarrow> nat \<Rightarrow> patient" where
  "Patient_init email now =
     \<lparr> activeTab = js ''chat'', chatMessage = [], chatHistory = [], loading = False,
       history = JArr [], sessionId = Patient_sessionId email now, appointments = JArr [] \<rparr>"

definition Patient_fetchPromptHistory_start :: "patient \<Rightarrow> patient run" where
  "Patient_fetchPromptHistory_start s = Awaiting s [AxiosGet prompt_history_url]"

definition Patient_fetchPromptHistory_resume :: "reply \<Rightarrow> patient \<Rightarrow> patient \<times> effect list" where
  "Patient_fetchPromptHistory_resume r s =
     (case r of
        Resolved data \<Rightarrow> (s\<lparr>history := data\<rparr>, [])
      | Rejected e \<Rightarrow> (s, [ConsoleError]))"

text \<open>\<open>sendMessage\<close> up to its \<open>await\<close>.\<close>

definition Patient_sendMessage_start :: "patient \<Rightarrow> patient run" where
  "Patient_sendMessage_start s =
     (if trim (chatMessage s) = [] then Finished s []
      else
        let userMessage = chatMessage s;
            s1 = s\<lparr>chatMessage := []\<rparr>;
            s2 = s1\<lparr>chatHistory := chatHistory s1 @ [\<lparr>ttype = User, message = JStr userMessage\<rparr>]\<rparr>;
            s3 = s2\<lparr>loading := True\<rparr>
        in Awaiting s3
             [AxiosPost process_prompt_url
                (JObj [(js ''text'', JStr userMessage), (js ''session_id'', JStr (sessionId s))])])"

text \<open>
  Once the call has settled. The \<open>try\<close> block is left early only by a rejected
  call: the read of \<open>response.data.response\<close> is inside the function handed to
  \<open>setChatHistory\<close>, so it runs when React applies that update, not inside
  \<open>sendMessage\<close>. Both branches queue one update of the transcript; the call of
  \<open>fetchPromptHistory\<close> is not awaited, it dispatches its request and returns.
\<close>

definition Patient_assistant_updater :: "jsval \<Rightarrow> turn list \<Rightarrow> error + turn list" where
  "Patient_assistant_updater data prev =
     (case get_prop data (js ''response'') of
        Inl e \<Rightarrow> Inl e
      | Inr v \<Rightarrow> Inr (prev @ [\<lparr>ttype = Assistant, message = v\<rparr>]))"

definition Patient_error_updater :: "error \<Rightarrow> turn list \<Rightarrow> error + turn list" where
  "Patient_error_updater e prev =
     Inr (prev @ [\<lparr>ttype = Error,
                   message = js_or (error_detail e) (JStr (js ''Error processing message''))\<rparr>])"

definition Patient_sendMessage_settled ::
  "reply \<Rightarrow> patient \<Rightarrow> (turn list \<Rightarrow> error + turn list) \<times> effect list" where
  "Patient_sendMessage_settled r s =
     (case r of
        Resolved data \<Rightarrow>
          (Patient_assistant_updater data, run_effects (Patient_fetchPromptHistory_start s))
      | Rejected e \<Rightarrow> (Patient_error_updater e, []))"

text \<open>
  The state React renders next: the queued update applied to the transcript as it is
  then, and \<open>loading\<close> false. \<open>Inl\<close> is the update throwing, which fails that
  render; \<open>sendMessage\<close> itself has returned, and its effects have happened.
\<close>

definition Patient_sendMessage_resume :: "reply \<Rightarrow> patient \<Rightarrow> (error + patient) \<times> effect list" where
  "Patient_sendMessage_resume r s =
     (let (upd, fx) = Patient_sendMessage_settled r s
      in (case upd (chatHistory s) of
            Inl e \<Rightarrow> Inl e
          | Inr h \<Rightarrow> Inr (s\<lparr>chatHistory := h, loading := False\<rparr>), fx))"

text \<open>\<open>sendMessage\<close> run to its end, with nothing else happening while it waits.\<close>

definition Patient_sendMessage :: "reply \<Rightarrow> patient \<Rightarrow> (error + patient) \<times> effect list" where
  "Patient_sendMessage r s =
     (case Patient_sendMessage_start s of
        Finished s1 fx \<Rightarrow> (Inr s1, fx)
      | Awaiting s1 fx \<Rightarrow>
          (let (s2, fx2) = Patient_sendMessage_resume r s1 in (s2, fx @ fx2)))"

definition Patient_handleKeyPress :: "key_event \<Rightarrow> patient \<Rightarrow> patient run" where
  "Patient_handleKeyPress e s =
     (if key e = js ''Enter'' \<and> \<not> shiftKey e
      then after_effects [PreventDefault] (Patient_sendMessage_start s)
      else Finished s [])"

definition Patient_handleQuickAction :: "jsstring \<Rightarrow> patient \<Rightarrow> patient" where
  "Patient_handleQuickAction action s = s\<lparr>chatMessage := action\<rparr>"

text \<open>The textarea's \<open>onChange\<close> and the Send button with its \<open>disabled\<close> attribute.\<close>

definition Patient_onChange :: "jsstring \<Rightarrow> patient \<Rightarrow> patient" where
  "Patient_onChange v s = s\<lparr>chatMessage := v\<rparr>"

definition Patient_send_disabled :: "patient \<Rightarrow> bool" where
  "Patient_send_disabled s \<longleftrightarrow> loading s \<or> trim (chatMessage s) = []"

definition Patient_click_send :: "patient \<Rightarrow> patient run" where
  "Patient_click_send s =
     (if Patient_send_disabled s then Finished s [] else Patient_sendMessage_start s)"


section \<open>DoctorDashboard.js\<close>

definition Doctor_sessionId :: "jsstring \<Rightarrow> nat \<Rightarrow> jsstring" where
  "Doctor_sessionId email now = js ''doctor_'' @ email @ js ''_'' @ decimal now"

definition Doctor_init :: "jsstring \<Rightarrow> nat \<Rightarrow> doctor" where
  "Doctor_init email now =
     \<lparr> activeTab = js ''slots'', chatMessage = [], chatHistory = [], loading = False,
       history = JArr [], sessionId = Doctor_sessionId email now,
       newSlot = \<lparr>date = [], slots = [[]]\<rparr> \<rparr>"

definition Doctor_fetchPromptHistory_start :: "doctor \<Rightarrow> doctor run" where
  "Doctor_fetchPromptHistory_start s = Awaiting s [AxiosGet prompt_history_url]"

definition Doctor_fetchPromptHistory_resume :: "reply \<Rightarrow> doctor \<Rightarrow> doctor \<times> effect list" where
  "Doctor_fetchPromptHistory_resume r s =
     (case r of
        Resolved data \<Rightarrow> (s\<lparr>history := data\<rparr>, [])
      | Rejected e \<Rightarrow> (s, [ConsoleError]))"

subsection \<open>The slot draft\<close>

definition setDate :: "jsstring \<Rightarrow> doctor \<Rightarrow> doctor" where
  "setDate v s = s\<lparr>newSlot := (newSlot s)\<lparr>date := v\<rparr>\<rparr>"

definition addSlotField :: "doctor \<Rightarrow> doctor" where
  "addSlotField s = s\<lparr>newSlot := (newSlot s)\<lparr>slots := slots (newSlot s) @ [[]]\<rparr>\<rparr>"

definition removeSlotField :: "nat \<Rightarrow> doctor \<Rightarrow> doctor" where
  "removeSlotField index s =
     s\<lparr>newSlot := (newSlot s)\<lparr>slots := filter_from 0 (\<lambda>_ i. i \<noteq> index) (slots (newSlot s))\<rparr>\<rparr>"

definition updateSlot :: "nat \<Rightarrow> jsstring \<Rightarrow> doctor \<Rightarrow> doctor" where
  "updateSlot index v s =
     s\<lparr>newSlot := (newSlot s)\<lparr>slots :=
         map_from 0 (\<lambda>slot i. if i = index then v else slot) (slots (newSlot s))\<rparr>\<rparr>"

text \<open>
  The render draws one Remove button per slot, and only while there is more than
  one slot: these are the indices \<open>removeSlotField\<close> can be clicked with.
\<close>

definition remove_slot_btns :: "doctor \<Rightarrow> nat list" where
  "remove_slot_btns s =
     (if length (slots (newSlot s)) > 1 then [0 ..< length (slots (newSlot s))] else [])"

definition click_remove_slot :: "nat \<Rightarrow> doctor \<Rightarrow> doctor" where
  "click_remove_slot i s = (if i \<in> set (remove_slot_btns s) then removeSlotField i s else s)"

definition slotsData :: "slot_draft \<Rightarrow> jsval" where
  "slotsData d = JObj [(date d, JArr (map JStr (filter (\<lambda>slot. trim slot \<noteq> []) (slots d))))]"

definition addAppointmentSlots_start :: "doctor \<Rightarrow> doctor run" where
  "addAppointmentSlots_start s =
     (if date (newSlot s) = [] \<or> list_all (\<lambda>slot. trim slot = []) (slots (newSlot s))
      then Finished s [Alert (JStr (js ''Please provide date and at least one time slot''))]
      else Awaiting s
             [AxiosPost appointments_url (JObj [(js ''slots'', slotsData (newSlot s))])])"

definition addAppointmentSlots_resume :: "reply \<Rightarrow> doctor \<Rightarrow> doctor \<times> effect list" where
  "addAppointmentSlots_resume r s =
     (case r of
        Resolved data \<Rightarrow>
          (s\<lparr>newSlot := \<lparr>date = [], slots = [[]]\<rparr>\<rparr>,
           [ConsoleLog, Alert (JStr (js ''Appointment slots added successfully!''))])
      | Rejected e \<Rightarrow>
          (s, [Alert (js_or (error_detail e) (JStr (js ''Error adding slots'')))]))"

subsection \<open>The doctor's chat\<close>

definition Doctor_sendMessage_start :: "doctor \<Rightarrow> doctor run" where
  "Doctor_sendMessage_start s =
     (if trim (chatMessage s) = [] then Finished s []
      else
        let userMessage = chatMessage s;
            s1 = s\<lparr>chatMessage := []\<rparr>;
            s2 = s1\<lparr>chatHistory := chatHistory s1 @ [\<lparr>ttype = User, message = JStr userMessage\<rparr>]\<rparr>;
            s3 = s2\<lparr>loading := True\<rparr>
        in Awaiting s3
             [AxiosPost process_prompt_url
                (JObj [(js ''text'', JStr userMessage), (js ''session_id'', JStr (sessionId s))])])"

text \<open>
  Once the call has settled. The \<open>try\<close> block is left early only by a rejected
  call: the read of \<open>response.data.response\<close> is inside the function handed to
  \<open>setChatHistory\<close>, so it runs when React applies that update, not inside
  \<open>sendMessage\<close>. Both branches queue one update of the transcript; the call of
  \<open>fetchPromptHistory\<close> is not awaited, it dispatches its request and returns.
\<close>

definition Doctor_assistant_updater :: "jsval \<Rightarrow> turn list \<Rightarrow> error + turn list" where
  "Doctor_assistant_updater data prev =
     (case get_prop data (js ''response'') of
        Inl e \<Rightarrow> Inl e
      | Inr v \<Rightarrow> Inr (prev @ [\<lparr>ttype = Assistant, message = v\<rparr>]))"

definition Doctor_error_updater :: "error \<Rightarrow> turn list \<Rightarrow> error + turn list" where
  "Doctor_error_updater e prev =
     Inr (prev @ [\<lparr>ttype = Error,
                   message = js_or (error_detail e) (JStr (js ''Error processing message''))\<rparr>])"

definition Doctor_sendMessage_settled ::
  "reply \<Rightarrow> doctor \<Rightarrow> (turn list \<Rightarrow> error + turn list) \<times> effect list" where
  "Doctor_sendMessage_settled r s =
     (case r of
        Resolved data \<Rightarrow>
          (Doctor_assistant_updater data, run_effects (Doctor_fetchPromptHistory_start s))
      | Rejected e \<Rightarrow> (Doctor_error_updater e, []))"

text \<open>
  The state React renders next: the queued update applied to the transcript as it is
  then, and \<open>loading\<close> false. \<open>Inl\<close> is the update throwing, which fails that
  render; \<open>sendMessage\<close> itself has returned, and its effects have happened.
\<close>

definition Doctor_sendMessage_resume :: "reply \<Rightarrow> doctor \<Rightarrow> (error + doctor) \<times> effect list" where
  "Doctor_sendMessage_resume r s =
     (let (upd, fx) = Doctor_sendMessage_settled r s
      in (case upd (chatHistory s) of
            Inl e \<Rightarrow> Inl e
          | Inr h \<Rightarrow> Inr (s\<lparr>chatHistory := h, loading := False\<rparr>), fx))"

text \<open>\<open>sendMessage\<close> run to its end, with nothing else happening while it waits.\<close>

definition Doctor_sendMessage :: "reply \<Rightarrow> doctor \<Rightarrow> (error + doctor) \<times> effect list" where
  "Doctor_sendMessage r s =
     (case Doctor_sendMessage_start s of
        Finished s1 fx \<Rightarrow> (Inr s1, fx)
      | Awaiting s1 fx \<Rightarrow>
          (let (s2, fx2) = Doctor_sendMessage_resume r s1 in (s2, fx @ fx2)))"

definition Doctor_handleKeyPress :: "key_event \<Rightarrow> doctor \<Rightarrow> doctor run" where
  "Doctor_handleKeyPress e s =
     (if key e = js ''Enter'' \<and> \<not> shiftKey e
      then after_effects [PreventDefault] (Doctor_sendMessage_start s)
      else Finished s [])"

definition Doctor_handleQuickAction :: "jsstring \<Rightarrow> doctor \<Rightarrow> doctor" where
  "Doctor_handleQuickAction action s = s\<lparr>chatMessage := action\<rparr>"


section \<open>Comparing the two chat engines\<close>

text \<open>
  The part of a controller's state that \<open>sendMessage\<close> works on, and the request it
  dispatches as a function of the input text and the session identifier.
\<close>

definition chat_view :: "'a dashboard_scheme \<Rightarrow> jsstring \<times> turn list \<times> bool" where
  "chat_view s = (chatMessage s, chatHistory s, loading s)"

definition chat_requests :: "jsstring \<Rightarrow> jsstring \<Rightarrow> effect list" where
  "chat_requests text sid =
     (if trim text = [] then []
      else [AxiosPost process_prompt_url
              (JObj [(js ''text'', JStr text), (js ''session_id'', JStr sid)])])"

fun awaiting :: "'s run \<Rightarrow> bool" where
  "awaiting (Finished s fx) = False"
| "awaiting (Awaiting s fx) = True"


section \<open>Basic facts\<close>

lemma js_eq_Nil_iff: "js s = [] \<longleftrightarrow> s = []"
  by (simp add: js_def)

lemma dropWhile_all_iff: "(\<forall>x\<in>set (dropWhile P xs). P x) \<longleftrightarrow> (\<forall>x\<in>set xs. P x)"
  by (induction xs) auto

text \<open>A string trims to the empty string exactly when it holds white space only.\<close>

lemma trim_Nil_iff: "trim s = [] \<longleftrightarrow> (\<forall>c\<in>set s. is_white_space c)"
  by (simp add: trim_def dropWhile_all_iff)

text \<open>Filtering on \<open>i !== index\<close> cuts out position \<open>index\<close>, if there is one.\<close>

lemma filter_from_neq:
  "filter_from i (\<lambda>_ j. j \<noteq> index) xs =
     (if index < i then xs else take (index - i) xs @ drop (Suc (index - i)) xs)"
proof (induction xs arbitrary: i)
  case Nil
  then show ?case by simp
next
  case (Cons x xs)
  show ?case
  proof (cases "index < Suc i")
    case True
    then show ?thesis using Cons[of "Suc i"] by (cases "index = i") auto
  next
    case False
    then have "index - i = Suc (index - Suc i)" by arith
    with False show ?thesis using Cons[of "Suc i"] by auto
  qed
qed

lemma length_removeSlotField:
  "index < length (slots (newSlot s)) \<Longrightarrow>
   length (slots (newSlot (removeSlotField index s))) = length (slots (newSlot s)) - 1"
  by (simp add: removeSlotField_def filter_from_neq)

lemma removeSlotField_out_of_range:
  "length (slots (newSlot s)) \<le> index \<Longrightarrow> removeSlotField index s = s"
  by (simp add: removeSlotField_def filter_from_neq)

lemma get_prop_nullish: "v = JNull \<or> v = JUndefined \<Longrightarrow> get_prop v k = Inl TypeError"
  by auto

lemma get_prop_Inr: "v \<noteq> JNull \<Longrightarrow> v \<noteq> JUndefined \<Longrightarrow> get_prop v k = Inr (opt_prop v k)"
  by (cases v) auto

text \<open>
  \<open>error.response?.data?.detail\<close> case by case: the \<open>detail\<close> of an object body of
  an object response, and \<open>undefined\<close> when the response, the body or the
  \<open>detail\<close> is missing or the response or body is no object.
\<close>

lemma error_detail_present:
  "map_of kvs (js ''data'') = Some (JObj body) \<Longrightarrow> map_of body (js ''detail'') = Some d \<Longrightarrow>
   error_detail (AxiosError (JObj kvs)) = d"
  by (simp add: error_detail_def)

lemma error_detail_no_response:
  "\<forall>kvs. error_response e \<noteq> JObj kvs \<Longrightarrow> error_detail e = JUndefined"
  by (cases "error_response e") (simp_all add: error_detail_def)

lemma error_detail_no_body:
  "\<forall>body. map_of kvs (js ''data'') \<noteq> Some (JObj body) \<Longrightarrow>
   error_detail (AxiosError (JObj kvs)) = JUndefined"
proof (cases "map_of kvs (js ''data'')")
  case None
  then show ?thesis by (simp add: error_detail_def)
next
  case (Some b)
  assume "\<forall>body. map_of kvs (js ''data'') \<noteq> Some (JObj body)"
  with Some show ?thesis by (cases b) (simp_all add: error_detail_def)
qed

lemma error_detail_no_detail:
  "map_of kvs (js ''data'') = Some (JObj body) \<Longrightarrow> map_of body (js ''detail'') = None \<Longrightarrow>
   error_detail (AxiosError (JObj kvs)) = JUndefined"
  by (simp add: error_detail_def)


section \<open>The slot draft builder\<close>

text \<open>
  Claim C8. When no date is set, or every slot is blank after trimming, submitting
  only shows the validation dialog: no request is dispatched and the whole state, the
  draft included, is as before.
\<close>

theorem submit_validation_no_request:
  assumes "date (newSlot s) = [] \<or> (\<forall>slot\<in>set (slots (newSlot s)). trim slot = [])"
  shows "addAppointmentSlots_start s =
           Finished s [Alert (JStr (js ''Please provide date and at least one time slot''))]"
  using assms by (auto simp: addAppointmentSlots_start_def list_all_iff)

theorem submit_validation_no_request_witness:
  "(date (newSlot (setDate (js ''2025-08-24'') (updateSlot 0 (js ''  '')
        (Doctor_init (js ''dr@clinic.org'') 1724486400000)))) = []
     \<or> (\<forall>slot\<in>set (slots (newSlot (setDate (js ''2025-08-24'') (updateSlot 0 (js ''  '')
        (Doctor_init (js ''dr@clinic.org'') 1724486400000))))). trim slot = []))
   \<and> addAppointmentSlots_start (setDate (js ''2025-08-24'') (updateSlot 0 (js ''  '')
        (Doctor_init (js ''dr@clinic.org'') 1724486400000))) =
       Finished (setDate (js ''2025-08-24'') (updateSlot 0 (js ''  '')
        (Doctor_init (js ''dr@clinic.org'') 1724486400000)))
         [Alert (JStr (js ''Please provide date and at least one time slot''))]"
proof -
  let ?s = "setDate (js ''2025-08-24'') (updateSlot 0 (js ''  '')
        (Doctor_init (js ''dr@clinic.org'') 1724486400000))"
  have h: "\<forall>slot\<in>set (slots (newSlot ?s)). trim slot = []"
    by (simp add: setDate_def updateSlot_def Doctor_init_def trim_def js_def is_white_space_def)
  from h submit_validation_no_request[of ?s] show ?thesis by blast
qed

text \<open>
  Claim C2, as the code has it. A draft that passes validation is sent as one request
  whose body maps the date to the slots that are non-blank after trimming, in their
  original order; each such slot is sent as the draft holds it, white space at its
  ends included.
\<close>

theorem submit_request_body:
  assumes "date (newSlot s) \<noteq> []" and "\<exists>slot\<in>set (slots (newSlot s)). trim slot \<noteq> []"
  shows "addAppointmentSlots_start s =
           Awaiting s [AxiosPost appointments_url
             (JObj [(js ''slots'',
                JObj [(date (newSlot s),
                       JArr (map JStr (filter (\<lambda>slot. trim slot \<noteq> []) (slots (newSlot s)))))])])]"
  using assms by (auto simp: addAppointmentSlots_start_def slotsData_def list_all_iff)

text \<open>The draft \<open>2025-08-24\<close> with slots \<open>9AM-10AM\<close>, blank, \<open>2PM-3PM\<close>.\<close>

theorem submit_request_body_witness:
  "newSlot (updateSlot 2 (js ''2PM-3PM'') (updateSlot 0 (js ''9AM-10AM'')
        (addSlotField (addSlotField (setDate (js ''2025-08-24'')
          (Doctor_init (js ''dr@clinic.org'') 1724486400000))))))
     = \<lparr>date = js ''2025-08-24'', slots = [js ''9AM-10AM'', [], js ''2PM-3PM'']\<rparr>
   \<and> run_effects (addAppointmentSlots_start
      (updateSlot 2 (js ''2PM-3PM'') (updateSlot 0 (js ''9AM-10AM'')
        (addSlotField (addSlotField (setDate (js ''2025-08-24'')
          (Doctor_init (js ''dr@clinic.org'') 1724486400000)))))))
     = [AxiosPost appointments_url
          (JObj [(js ''slots'',
             JObj [(js ''2025-08-24'', JArr [JStr (js ''9AM-10AM''), JStr (js ''2PM-3PM'')])])])]"
proof -
  let ?s = "updateSlot 2 (js ''2PM-3PM'') (updateSlot 0 (js ''9AM-10AM'')
        (addSlotField (addSlotField (setDate (js ''2025-08-24'')
          (Doctor_init (js ''dr@clinic.org'') 1724486400000)))))"
  have d: "newSlot ?s = \<lparr>date = js ''2025-08-24'', slots = [js ''9AM-10AM'', [], js ''2PM-3PM'']\<rparr>"
    by (simp add: updateSlot_def addSlotField_def setDate_def Doctor_init_def)
  have t: "trim (js ''9AM-10AM'') \<noteq> []" "trim (js ''2PM-3PM'') \<noteq> []" "trim [] = []"
    by (simp_all add: trim_def js_def is_white_space_def)
  have h1: "date (newSlot ?s) \<noteq> []" by (simp add: d js_eq_Nil_iff)
  have h2: "\<exists>slot\<in>set (slots (newSlot ?s)). trim slot \<noteq> []" by (simp add: d t)
  show ?thesis using submit_request_body[OF h1 h2] by (simp add: d t)
qed

text \<open>
  The slot \<open>" 9AM-10AM"\<close> is non-blank, and it is sent with its leading space, not in
  trimmed form.
\<close>

theorem submit_sends_untrimmed_slot:
  "run_effects (addAppointmentSlots_start
      (updateSlot 0 (js '' 9AM-10AM'') (setDate (js ''2025-08-24'')
        (Doctor_init (js ''dr@clinic.org'') 1724486400000))))
   = [AxiosPost appointments_url
        (JObj [(js ''slots'', JObj [(js ''2025-08-24'', JArr [JStr (js '' 9AM-10AM'')])])])]
   \<and> trim (js '' 9AM-10AM'') = js ''9AM-10AM''
   \<and> js '' 9AM-10AM'' \<noteq> js ''9AM-10AM''"
  by (simp add: addAppointmentSlots_start_def slotsData_def updateSlot_def setDate_def
        Doctor_init_def trim_def js_def is_white_space_def)

text \<open>
  Claim C3, as the code has it. \<open>removeSlotField\<close> has no guard of its own; the
  guard is in the render. With exactly one slot no Remove button is drawn, so a click
  changes nothing; a click on a button that is drawn shortens the sequence by one; and
  no click empties a non-empty sequence.
\<close>

theorem remove_slot_guarded_by_render:
  "(length (slots (newSlot s)) = 1 \<longrightarrow> remove_slot_btns s = [] \<and> click_remove_slot i s = s)
   \<and> (i \<in> set (remove_slot_btns s) \<longrightarrow>
        length (slots (newSlot (click_remove_slot i s))) = length (slots (newSlot s)) - 1)
   \<and> (slots (newSlot s) \<noteq> [] \<longrightarrow> slots (newSlot (click_remove_slot i s)) \<noteq> [])"
proof (intro conjI impI)
  assume "length (slots (newSlot s)) = 1"
  then show "remove_slot_btns s = []" by (simp add: remove_slot_btns_def)
next
  assume "length (slots (newSlot s)) = 1"
  then show "click_remove_slot i s = s" by (simp add: click_remove_slot_def remove_slot_btns_def)
next
  assume "i \<in> set (remove_slot_btns s)"
  then show "length (slots (newSlot (click_remove_slot i s))) = length (slots (newSlot s)) - 1"
    by (simp add: click_remove_slot_def remove_slot_btns_def length_removeSlotField split: if_splits)
next
  assume ne: "slots (newSlot s) \<noteq> []"
  show "slots (newSlot (click_remove_slot i s)) \<noteq> []"
  proof (cases "i \<in> set (remove_slot_btns s)")
    case True
    then have "1 < length (slots (newSlot s))" "i < length (slots (newSlot s))"
      by (auto simp: remove_slot_btns_def split: if_splits)
    then have "length (slots (newSlot (removeSlotField i s))) \<noteq> 0"
      by (simp add: length_removeSlotField)
    with True show ?thesis by (auto simp: click_remove_slot_def)
  next
    case False
    with ne show ?thesis by (simp add: click_remove_slot_def)
  qed
qed

theorem remove_slot_guarded_by_render_witness:
  "2 \<in> set (remove_slot_btns (addSlotField (addSlotField
        (Doctor_init (js ''dr@clinic.org'') 1724486400000))))
   \<and> length (slots (newSlot (click_remove_slot 2 (addSlotField (addSlotField
        (Doctor_init (js ''dr@clinic.org'') 1724486400000)))))) = 2
   \<and> length (slots (newSlot (Doctor_init (js ''dr@clinic.org'') 1724486400000))) = 1
   \<and> click_remove_slot 0 (Doctor_init (js ''dr@clinic.org'') 1724486400000)
       = Doctor_init (js ''dr@clinic.org'') 1724486400000
   \<and> slots (newSlot (click_remove_slot 0 (Doctor_init (js ''dr@clinic.org'') 1724486400000))) \<noteq> []"
proof -
  let ?s = "addSlotField (addSlotField (Doctor_init (js ''dr@clinic.org'') 1724486400000))"
  let ?t = "Doctor_init (js ''dr@clinic.org'') 1724486400000"
  have a: "2 \<in> set (remove_slot_btns ?s)"
    by (simp add: remove_slot_btns_def addSlotField_def Doctor_init_def)
  have b: "length (slots (newSlot ?s)) = 3"
    by (simp add: addSlotField_def Doctor_init_def)
  have c: "length (slots (newSlot ?t)) = 1" "slots (newSlot ?t) \<noteq> []"
    by (simp_all add: Doctor_init_def)
  show ?thesis
    using a b c remove_slot_guarded_by_render[of ?s 2] remove_slot_guarded_by_render[of ?t 0]
    by simp
qed

text \<open>
  Called directly at index 0 on the one-slot draft of a fresh mount, \<open>removeSlotField\<close>
  leaves no slot at all.
\<close>

theorem removeSlotField_empties_single_slot:
  "length (slots (newSlot (Doctor_init (js ''dr@clinic.org'') 1724486400000))) = 1
   \<and> slots (newSlot (removeSlotField 0 (Doctor_init (js ''dr@clinic.org'') 1724486400000))) = []"
  by (simp add: removeSlotField_def Doctor_init_def)

text \<open>
  Claim C6. When the request is accepted the draft becomes the empty default and the
  success dialog is shown. When it is rejected the state, the draft included, is as it
  was and the dialog shows the server's \<open>detail\<close> if that is truthy, the fallback
  text otherwise: so the \<open>detail\<close> of the error body when it has a truthy one, and
  the fallback when no response arrived.
\<close>

theorem submit_resolution:
  "addAppointmentSlots_resume (Resolved data) s =
     (s\<lparr>newSlot := \<lparr>date = [], slots = [[]]\<rparr>\<rparr>,
      [ConsoleLog, Alert (JStr (js ''Appointment slots added successfully!''))])
   \<and> addAppointmentSlots_resume (Rejected e) s =
     (s, [Alert (if truthy (error_detail e) then error_detail e
                 else JStr (js ''Error adding slots''))])
   \<and> (map_of kvs (js ''data'') = Some (JObj body) \<and> map_of body (js ''detail'') = Some d
        \<and> truthy d \<longrightarrow>
      addAppointmentSlots_resume (Rejected (AxiosError (JObj kvs))) s = (s, [Alert d]))
   \<and> ((\<forall>kvs. error_response e \<noteq> JObj kvs) \<longrightarrow>
      addAppointmentSlots_resume (Rejected e) s = (s, [Alert (JStr (js ''Error adding slots''))]))"
proof (intro conjI impI)
  show "addAppointmentSlots_resume (Resolved data) s =
     (s\<lparr>newSlot := \<lparr>date = [], slots = [[]]\<rparr>\<rparr>,
      [ConsoleLog, Alert (JStr (js ''Appointment slots added successfully!''))])"
    by (simp add: addAppointmentSlots_resume_def)
next
  show "addAppointmentSlots_resume (Rejected e) s =
     (s, [Alert (if truthy (error_detail e) then error_detail e
                 else JStr (js ''Error adding slots''))])"
    by (simp add: addAppointmentSlots_resume_def js_or_def)
next
  assume "map_of kvs (js ''data'') = Some (JObj body) \<and> map_of body (js ''detail'') = Some d
        \<and> truthy d"
  then have "error_detail (AxiosError (JObj kvs)) = d" and "truthy d"
    by (simp_all add: error_detail_present)
  then show "addAppointmentSlots_resume (Rejected (AxiosError (JObj kvs))) s = (s, [Alert d])"
    by (simp add: addAppointmentSlots_resume_def js_or_def)
next
  assume "\<forall>kvs. error_response e \<noteq> JObj kvs"
  then have "error_detail e = JUndefined"
    by (rule error_detail_no_response)
  then show "addAppointmentSlots_resume (Rejected e) s
               = (s, [Alert (JStr (js ''Error adding slots''))])"
    by (simp add: addAppointmentSlots_resume_def js_or_def)
qed

text \<open>
  A rejection with status 400 and body \<open>{detail: "Slot already exists"}\<close> shows that
  text and keeps the draft; a network error, which has no response, shows the fallback.
\<close>

theorem submit_resolution_witness:
  "map_of [(js ''status'', JNum 400),
           (js ''data'', JObj [(js ''detail'', JStr (js ''Slot already exists''))])] (js ''data'')
     = Some (JObj [(js ''detail'', JStr (js ''Slot already exists''))])
   \<and> map_of [(js ''detail'', JStr (js ''Slot already exists''))] (js ''detail'')
     = Some (JStr (js ''Slot already exists''))
   \<and> truthy (JStr (js ''Slot already exists''))
   \<and> addAppointmentSlots_resume
       (Rejected (AxiosError (JObj [(js ''status'', JNum 400),
          (js ''data'', JObj [(js ''detail'', JStr (js ''Slot already exists''))])])))
       (updateSlot 0 (js ''9AM-10AM'') (setDate (js ''2025-08-24'')
          (Doctor_init (js ''dr@clinic.org'') 1724486400000)))
     = (updateSlot 0 (js ''9AM-10AM'') (setDate (js ''2025-08-24'')
          (Doctor_init (js ''dr@clinic.org'') 1724486400000)),
        [Alert (JStr (js ''Slot already exists''))])
   \<and> (\<forall>kvs. error_response (AxiosError JUndefined) \<noteq> JObj kvs)
   \<and> addAppointmentSlots_resume (Rejected (AxiosError JUndefined))
       (updateSlot 0 (js ''9AM-10AM'') (setDate (js ''2025-08-24'')
          (Doctor_init (js ''dr@clinic.org'') 1724486400000)))
     = (updateSlot 0 (js ''9AM-10AM'') (setDate (js ''2025-08-24'')
          (Doctor_init (js ''dr@clinic.org'') 1724486400000)),
        [Alert (JStr (js ''Error adding slots''))])"
proof -
  let ?s = "updateSlot 0 (js ''9AM-10AM'') (setDate (js ''2025-08-24'')
          (Doctor_init (js ''dr@clinic.org'') 1724486400000))"
  let ?body = "[(js ''detail'', JStr (js ''Slot already exists''))]"
  let ?kvs = "[(js ''status'', JNum 400), (js ''data'', JObj ?body)]"
  have k: "map_of ?kvs (js ''data'') = Some (JObj ?body)"
    by (simp add: js_def)
  have b: "map_of ?body (js ''detail'') = Some (JStr (js ''Slot already exists''))"
    by simp
  have tr: "truthy (JStr (js ''Slot already exists''))"
    by (simp add: js_eq_Nil_iff)
  have n: "\<forall>kvs. error_response (AxiosError JUndefined) \<noteq> JObj kvs"
    by simp
  from k b tr n
    submit_resolution[of JNull ?s "AxiosError JUndefined" ?kvs ?body
      "JStr (js ''Slot already exists'')"]
  show ?thesis by blast
qed


section \<open>The history synchronizer\<close>

text \<open>
  Claim C7. In both dashboards a failed fetch writes to the console and nothing else:
  the state, the cached history included, is as before. A fetch that succeeds puts the
  body in place of the cached collection.
\<close>

theorem fetchPromptHistory_failure_keeps_cache:
  "Patient_fetchPromptHistory_resume (Rejected e) p = (p, [ConsoleError])
   \<and> Patient_fetchPromptHistory_resume (Resolved data) p = (p\<lparr>history := data\<rparr>, [])
   \<and> Doctor_fetchPromptHistory_resume (Rejected e) d = (d, [ConsoleError])
   \<and> Doctor_fetchPromptHistory_resume (Resolved data) d = (d\<lparr>history := data\<rparr>, [])"
  by (simp add: Patient_fetchPromptHistory_resume_def Doctor_fetchPromptHistory_resume_def)


section \<open>The chat interaction engine\<close>

lemma Patient_sendMessage_resume_rejected:
  "Patient_sendMessage_resume (Rejected e) s =
     (Inr (s\<lparr>chatHistory := chatHistory s @
               [\<lparr>ttype = Error,
                 message = (if truthy (error_detail e) then error_detail e
                            else JStr (js ''Error processing message''))\<rparr>],
             loading := False\<rparr>), [])"
  by (simp add: Patient_sendMessage_resume_def Patient_sendMessage_settled_def
        Patient_error_updater_def js_or_def)

text \<open>
  Whatever happened while the call was outstanding, a resolved call with a readable
  \<open>response\<close> appends its assistant turn to the transcript as it is then.
\<close>

lemma Patient_sendMessage_resume_success:
  "get_prop data (js ''response'') = Inr v \<Longrightarrow>
   Patient_sendMessage_resume (Resolved data) s =
     (Inr (s\<lparr>chatHistory := chatHistory s @ [\<lparr>ttype = Assistant, message = v\<rparr>],
             loading := False\<rparr>), [AxiosGet prompt_history_url])"
  by (simp add: Patient_sendMessage_resume_def Patient_sendMessage_settled_def
        Patient_assistant_updater_def Patient_fetchPromptHistory_start_def)

text \<open>
  A resolved call whose body is \<open>null\<close> or \<open>undefined\<close> never reaches the
  \<open>catch\<close>: no turn is appended, the history fetch is dispatched, and the queued
  update throws when it is applied.
\<close>

lemma Patient_sendMessage_resume_no_body:
  "data = JNull \<or> data = JUndefined \<Longrightarrow>
   Patient_sendMessage_resume (Resolved data) s = (Inl TypeError, [AxiosGet prompt_history_url])"
  by (auto simp: Patient_sendMessage_resume_def Patient_sendMessage_settled_def
        Patient_assistant_updater_def Patient_fetchPromptHistory_start_def)

text \<open>A send that nothing overlaps: user turn, then assistant turn, and one history fetch.\<close>

lemma Patient_sendMessage_uninterrupted:
  assumes "trim (chatMessage s) \<noteq> []" and "get_prop data (js ''response'') = Inr v"
  shows "Patient_sendMessage (Resolved data) s =
           (Inr (s\<lparr>chatMessage := [],
                   chatHistory := chatHistory s @
                     [\<lparr>ttype = User, message = JStr (chatMessage s)\<rparr>,
                      \<lparr>ttype = Assistant, message = v\<rparr>],
                   loading := False\<rparr>),
            [AxiosPost process_prompt_url
               (JObj [(js ''text'', JStr (chatMessage s)),
                      (js ''session_id'', JStr (sessionId s))]),
             AxiosGet prompt_history_url])"
  using assms
  by (simp add: Patient_sendMessage_def Patient_sendMessage_start_def Let_def
        Patient_sendMessage_resume_success)

lemma sendMessage_start_views:
  assumes "chat_view p = chat_view d"
  shows "chat_view (run_state (Patient_sendMessage_start p))
           = chat_view (run_state (Doctor_sendMessage_start d))
       \<and> awaiting (Patient_sendMessage_start p) = awaiting (Doctor_sendMessage_start d)
       \<and> run_effects (Patient_sendMessage_start p) = chat_requests (chatMessage p) (sessionId p)
       \<and> run_effects (Doctor_sendMessage_start d) = chat_requests (chatMessage p) (sessionId d)"
  using assms
  by (auto simp: chat_view_def Patient_sendMessage_start_def Doctor_sendMessage_start_def
        chat_requests_def Let_def)

lemma sendMessage_resume_views:
  assumes "chat_view p = chat_view d"
  shows "map_sum id chat_view (fst (Patient_sendMessage_resume r p))
           = map_sum id chat_view (fst (Doctor_sendMessage_resume r d))
       \<and> snd (Patient_sendMessage_resume r p) = snd (Doctor_sendMessage_resume r d)"
  using assms
  by (auto simp: chat_view_def Patient_sendMessage_resume_def Doctor_sendMessage_resume_def
        Patient_sendMessage_settled_def Doctor_sendMessage_settled_def
        Patient_assistant_updater_def Doctor_assistant_updater_def
        Patient_error_updater_def Doctor_error_updater_def
        Patient_fetchPromptHistory_start_def Doctor_fetchPromptHistory_start_def
      split: reply.splits sum.splits)

lemma sendMessage_resume_sessionId:
  "(case fst (Patient_sendMessage_resume r p) of
      Inl err \<Rightarrow> True | Inr p' \<Rightarrow> sessionId p' = sessionId p)
   \<and> (case fst (Doctor_sendMessage_resume r d) of
      Inl err \<Rightarrow> True | Inr d' \<Rightarrow> sessionId d' = sessionId d)"
  by (auto simp: Patient_sendMessage_resume_def Doctor_sendMessage_resume_def
        Patient_sendMessage_settled_def Doctor_sendMessage_settled_def
        Patient_assistant_updater_def Doctor_assistant_updater_def
        Patient_error_updater_def Doctor_error_updater_def
      split: reply.splits sum.splits)

text \<open>The Send button is disabled while a round-trip is in flight.\<close>

lemma click_send_in_flight: "loading s \<Longrightarrow> Patient_click_send s = Finished s []"
  by (simp add: Patient_click_send_def Patient_send_disabled_def)

text \<open>
  Claim C9. In both dashboards, when the input text trims to the empty string,
  \<open>sendMessage\<close> returns at once: no turn, no request, and the state is as before.
\<close>

theorem sendMessage_blank_noop:
  "(trim (chatMessage p) = [] \<longrightarrow>
      Patient_sendMessage_start p = Finished p [] \<and> Patient_sendMessage r p = (Inr p, []))
   \<and> (trim (chatMessage d) = [] \<longrightarrow>
      Doctor_sendMessage_start d = Finished d [] \<and> Doctor_sendMessage r d = (Inr d, []))"
  by (simp add: Patient_sendMessage_start_def Patient_sendMessage_def
        Doctor_sendMessage_start_def Doctor_sendMessage_def)

theorem sendMessage_blank_noop_witness:
  "trim (chatMessage (Patient_handleQuickAction [0x20, 0x09, 0x0A]
       (Patient_init (js ''pat@clinic.org'') 1724486400000))) = []
   \<and> Patient_sendMessage_start (Patient_handleQuickAction [0x20, 0x09, 0x0A]
       (Patient_init (js ''pat@clinic.org'') 1724486400000))
     = Finished (Patient_handleQuickAction [0x20, 0x09, 0x0A]
       (Patient_init (js ''pat@clinic.org'') 1724486400000)) []
   \<and> trim (chatMessage (Doctor_init (js ''dr@clinic.org'') 1724486400000)) = []
   \<and> Doctor_sendMessage_start (Doctor_init (js ''dr@clinic.org'') 1724486400000)
     = Finished (Doctor_init (js ''dr@clinic.org'') 1724486400000) []"
proof -
  let ?p = "Patient_handleQuickAction [0x20, 0x09, 0x0A]
       (Patient_init (js ''pat@clinic.org'') 1724486400000)"
  let ?d = "Doctor_init (js ''dr@clinic.org'') 1724486400000"
  have hp: "trim (chatMessage ?p) = []"
    by (simp add: Patient_handleQuickAction_def Patient_init_def trim_def is_white_space_def)
  have hd: "trim (chatMessage ?d) = []"
    by (simp add: Doctor_init_def trim_def)
  from hp hd sendMessage_blank_noop[of ?p "Rejected TypeError" ?d] show ?thesis by blast
qed

text \<open>
  Claim C5, on the code. The user sends \<open>a\<close> with Enter, types \<open>b\<close> and presses
  Enter again before any reply; then the first call resolves with the response
  \<open>A\<close>. The user turn \<open>a\<close> and its assistant turn are not next to each other: the
  transcript is \<open>a\<close>, \<open>b\<close>, \<open>A\<close>, and the in-flight flag is false while the
  second call is still outstanding.
\<close>

theorem sendMessage_turns_interleave:
  "Patient_sendMessage_resume (Resolved (JObj [(js ''response'', JStr (js ''A''))]))
     (run_state (Patient_handleKeyPress \<lparr>key = js ''Enter'', shiftKey = False\<rparr>
       (Patient_onChange (js ''b'')
         (run_state (Patient_handleKeyPress \<lparr>key = js ''Enter'', shiftKey = False\<rparr>
           (Patient_onChange (js ''a'') (Patient_init (js ''pat@clinic.org'') 1724486400000)))))))
   = (Inr ((Patient_init (js ''pat@clinic.org'') 1724486400000)
            \<lparr>chatHistory := [\<lparr>ttype = User, message = JStr (js ''a'')\<rparr>,
                             \<lparr>ttype = User, message = JStr (js ''b'')\<rparr>,
                             \<lparr>ttype = Assistant, message = JStr (js ''A'')\<rparr>],
             loading := False\<rparr>),
      [AxiosGet prompt_history_url])"
proof -
  have t: "trim (js ''a'') \<noteq> []" "trim (js ''b'') \<noteq> []"
    by (simp_all add: trim_def js_def is_white_space_def)
  have k: "js ''Enter'' = js ''Enter''" by simp
  have g: "get_prop (JObj [(js ''response'', JStr (js ''A''))]) (js ''response'')
             = Inr (JStr (js ''A''))"
    by simp
  show ?thesis
    using t
    by (simp add: Patient_sendMessage_resume_success[OF g] Patient_handleKeyPress_def
          Patient_sendMessage_start_def Patient_onChange_def Patient_init_def Let_def)
qed

text \<open>
  Claim C4, as the code has it. After a rejected call \<open>sendMessage\<close> appends one
  error turn and clears the in-flight flag. The turn's message is the \<open>detail\<close> of
  the error body when that is truthy, and the fallback text in every other case: no
  response, a response with no body or with a body that is no object, a body with no
  \<open>detail\<close>, or a \<open>detail\<close> that is falsy. The flag is also false after a resolved
  call whose body is neither \<open>null\<close> nor \<open>undefined\<close>.
\<close>

theorem sendMessage_failure_turn:
  "Patient_sendMessage_resume (Rejected e) s =
     (Inr (s\<lparr>chatHistory := chatHistory s @
               [\<lparr>ttype = Error,
                 message = (if truthy (error_detail e) then error_detail e
                            else JStr (js ''Error processing message''))\<rparr>],
             loading := False\<rparr>), [])
   \<and> (map_of kvs (js ''data'') = Some (JObj body) \<and> map_of body (js ''detail'') = Some d
        \<and> truthy d \<longrightarrow>
      Patient_sendMessage_resume (Rejected (AxiosError (JObj kvs))) s =
        (Inr (s\<lparr>chatHistory := chatHistory s @ [\<lparr>ttype = Error, message = d\<rparr>],
                loading := False\<rparr>), []))
   \<and> ((\<forall>kvs. error_response e \<noteq> JObj kvs) \<longrightarrow>
      Patient_sendMessage_resume (Rejected e) s =
        (Inr (s\<lparr>chatHistory := chatHistory s @
                  [\<lparr>ttype = Error, message = JStr (js ''Error processing message'')\<rparr>],
                loading := False\<rparr>), []))
   \<and> ((\<forall>body. map_of kvs (js ''data'') \<noteq> Some (JObj body)) \<longrightarrow>
      Patient_sendMessage_resume (Rejected (AxiosError (JObj kvs))) s =
        (Inr (s\<lparr>chatHistory := chatHistory s @
                  [\<lparr>ttype = Error, message = JStr (js ''Error processing message'')\<rparr>],
                loading := False\<rparr>), []))
   \<and> (map_of kvs (js ''data'') = Some (JObj body)
        \<and> (map_of body (js ''detail'') = None
            \<or> (\<exists>d. map_of body (js ''detail'') = Some d \<and> \<not> truthy d)) \<longrightarrow>
      Patient_sendMessage_resume (Rejected (AxiosError (JObj kvs))) s =
        (Inr (s\<lparr>chatHistory := chatHistory s @
                  [\<lparr>ttype = Error, message = JStr (js ''Error processing message'')\<rparr>],
                loading := False\<rparr>), []))
   \<and> (r \<noteq> Resolved JNull \<and> r \<noteq> Resolved JUndefined \<longrightarrow>
      (\<exists>s'. fst (Patient_sendMessage_resume r s) = Inr s' \<and> \<not> loading s'))"
proof (intro conjI impI)
  show "Patient_sendMessage_resume (Rejected e) s =
     (Inr (s\<lparr>chatHistory := chatHistory s @
               [\<lparr>ttype = Error,
                 message = (if truthy (error_detail e) then error_detail e
                            else JStr (js ''Error processing message''))\<rparr>],
             loading := False\<rparr>), [])"
    by (rule Patient_sendMessage_resume_rejected)
next
  assume "map_of kvs (js ''data'') = Some (JObj body) \<and> map_of body (js ''detail'') = Some d
        \<and> truthy d"
  then have "error_detail (AxiosError (JObj kvs)) = d" and "truthy d"
    by (simp_all add: error_detail_present)
  then show "Patient_sendMessage_resume (Rejected (AxiosError (JObj kvs))) s =
        (Inr (s\<lparr>chatHistory := chatHistory s @ [\<lparr>ttype = Error, message = d\<rparr>],
                loading := False\<rparr>), [])"
    by (simp add: Patient_sendMessage_resume_rejected)
next
  assume "\<forall>kvs. error_response e \<noteq> JObj kvs"
  then have "error_detail e = JUndefined"
    by (rule error_detail_no_response)
  then show "Patient_sendMessage_resume (Rejected e) s =
        (Inr (s\<lparr>chatHistory := chatHistory s @
                  [\<lparr>ttype = Error, message = JStr (js ''Error processing message'')\<rparr>],
                loading := False\<rparr>), [])"
    by (simp add: Patient_sendMessage_resume_rejected)
next
  assume "\<forall>body. map_of kvs (js ''data'') \<noteq> Some (JObj body)"
  then have "error_detail (AxiosError (JObj kvs)) = JUndefined"
    by (rule error_detail_no_body)
  then show "Patient_sendMessage_resume (Rejected (AxiosError (JObj kvs))) s =
        (Inr (s\<lparr>chatHistory := chatHistory s @
                  [\<lparr>ttype = Error, message = JStr (js ''Error processing message'')\<rparr>],
                loading := False\<rparr>), [])"
    by (simp add: Patient_sendMessage_resume_rejected)
next
  assume a: "map_of kvs (js ''data'') = Some (JObj body)
        \<and> (map_of body (js ''detail'') = None
            \<or> (\<exists>d. map_of body (js ''detail'') = Some d \<and> \<not> truthy d))"
  then have "\<not> truthy (error_detail (AxiosError (JObj kvs)))"
    by (auto simp: error_detail_present error_detail_no_detail)
  then show "Patient_sendMessage_resume (Rejected (AxiosError (JObj kvs))) s =
        (Inr (s\<lparr>chatHistory := chatHistory s @
                  [\<lparr>ttype = Error, message = JStr (js ''Error processing message'')\<rparr>],
                loading := False\<rparr>), [])"
    by (simp add: Patient_sendMessage_resume_rejected)
next
  assume a: "r \<noteq> Resolved JNull \<and> r \<noteq> Resolved JUndefined"
  show "\<exists>s'. fst (Patient_sendMessage_resume r s) = Inr s' \<and> \<not> loading s'"
  proof (cases r)
    case (Rejected e')
    then show ?thesis by (simp add: Patient_sendMessage_resume_rejected)
  next
    case (Resolved data)
    with a have "data \<noteq> JNull" "data \<noteq> JUndefined" by auto
    then have "get_prop data (js ''response'') = Inr (opt_prop data (js ''response''))"
      by (rule get_prop_Inr)
    with Resolved show ?thesis by (simp add: Patient_sendMessage_resume_success)
  qed
qed

text \<open>
  A send of \<open>hello\<close> is in flight. A rejection with status 401 and body
  \<open>{detail: "Not authenticated"}\<close> appends that text as the error turn; a network
  error, which has no response, appends the fallback.
\<close>

theorem sendMessage_failure_turn_witness:
  "map_of [(js ''status'', JNum 401),
           (js ''data'', JObj [(js ''detail'', JStr (js ''Not authenticated''))])] (js ''data'')
     = Some (JObj [(js ''detail'', JStr (js ''Not authenticated''))])
   \<and> map_of [(js ''detail'', JStr (js ''Not authenticated''))] (js ''detail'')
     = Some (JStr (js ''Not authenticated''))
   \<and> truthy (JStr (js ''Not authenticated''))
   \<and> Patient_sendMessage_resume
       (Rejected (AxiosError (JObj [(js ''status'', JNum 401),
          (js ''data'', JObj [(js ''detail'', JStr (js ''Not authenticated''))])])))
       (run_state (Patient_sendMessage_start (Patient_handleQuickAction (js ''hello'')
          (Patient_init (js ''pat@clinic.org'') 1724486400000))))
     = (Inr ((Patient_init (js ''pat@clinic.org'') 1724486400000)
          \<lparr>chatHistory := [\<lparr>ttype = User, message = JStr (js ''hello'')\<rparr>,
                           \<lparr>ttype = Error, message = JStr (js ''Not authenticated'')\<rparr>]\<rparr>), [])
   \<and> (\<forall>kvs. error_response (AxiosError JUndefined) \<noteq> JObj kvs)
   \<and> Patient_sendMessage_resume (Rejected (AxiosError JUndefined))
       (run_state (Patient_sendMessage_start (Patient_handleQuickAction (js ''hello'')
          (Patient_init (js ''pat@clinic.org'') 1724486400000))))
     = (Inr ((Patient_init (js ''pat@clinic.org'') 1724486400000)
          \<lparr>chatHistory := [\<lparr>ttype = User, message = JStr (js ''hello'')\<rparr>,
                           \<lparr>ttype = Error, message = JStr (js ''Error processing message'')\<rparr>]\<rparr>), [])
   \<and> Rejected (AxiosError JUndefined) \<noteq> Resolved JNull
   \<and> Rejected (AxiosError JUndefined) \<noteq> Resolved JUndefined
   \<and> (\<exists>s'. fst (Patient_sendMessage_resume (Rejected (AxiosError JUndefined))
         (run_state (Patient_sendMessage_start (Patient_handleQuickAction (js ''hello'')
            (Patient_init (js ''pat@clinic.org'') 1724486400000))))) = Inr s' \<and> \<not> loading s')"
proof -
  let ?s = "run_state (Patient_sendMessage_start (Patient_handleQuickAction (js ''hello'')
        (Patient_init (js ''pat@clinic.org'') 1724486400000)))"
  let ?body = "[(js ''detail'', JStr (js ''Not authenticated''))]"
  let ?kvs = "[(js ''status'', JNum 401), (js ''data'', JObj ?body)]"
  have t: "trim (js ''hello'') \<noteq> []"
    by (simp add: trim_def js_def is_white_space_def)
  have s: "?s = (Patient_init (js ''pat@clinic.org'') 1724486400000)
        \<lparr>chatHistory := [\<lparr>ttype = User, message = JStr (js ''hello'')\<rparr>], loading := True\<rparr>"
    using t by (simp add: Patient_sendMessage_start_def Patient_handleQuickAction_def
          Patient_init_def Let_def)
  have k: "map_of ?kvs (js ''data'') = Some (JObj ?body)"
    by (simp add: js_def)
  have b: "map_of ?body (js ''detail'') = Some (JStr (js ''Not authenticated''))"
    by simp
  have tr: "truthy (JStr (js ''Not authenticated''))"
    by (simp add: js_eq_Nil_iff)
  have n: "\<forall>kvs. error_response (AxiosError JUndefined) \<noteq> JObj kvs"
    by simp
  have r: "Rejected (AxiosError JUndefined) \<noteq> Resolved JNull"
      "Rejected (AxiosError JUndefined) \<noteq> Resolved JUndefined"
    by simp_all
  note inst = sendMessage_failure_turn[of "AxiosError JUndefined" ?s ?kvs ?body
      "JStr (js ''Not authenticated'')" "Rejected (AxiosError JUndefined)"]
  have c1: "Patient_sendMessage_resume (Rejected (AxiosError (JObj ?kvs))) ?s =
        (Inr (?s\<lparr>chatHistory := chatHistory ?s @
                  [\<lparr>ttype = Error, message = JStr (js ''Not authenticated'')\<rparr>],
                loading := False\<rparr>), [])"
    using inst k b tr by blast
  have c2: "Patient_sendMessage_resume (Rejected (AxiosError JUndefined)) ?s =
        (Inr (?s\<lparr>chatHistory := chatHistory ?s @
                  [\<lparr>ttype = Error, message = JStr (js ''Error processing message'')\<rparr>],
                loading := False\<rparr>), [])"
    using inst n by blast
  have c3: "\<exists>s'. fst (Patient_sendMessage_resume (Rejected (AxiosError JUndefined)) ?s) = Inr s'
              \<and> \<not> loading s'"
    using inst r by blast
  have e: "?s\<lparr>chatHistory := chatHistory ?s @ [x], loading := False\<rparr>
             = (Patient_init (js ''pat@clinic.org'') 1724486400000)
                 \<lparr>chatHistory := [\<lparr>ttype = User, message = JStr (js ''hello'')\<rparr>, x]\<rparr>" for x
    unfolding s by (simp add: Patient_init_def)
  show ?thesis
    using k b tr n r c1 c2 c3 unfolding e by blast
qed

text \<open>
  A \<open>detail\<close> that is present but empty is not what the error turn shows: the turn
  carries the fallback text.
\<close>

theorem sendMessage_empty_detail_fallback:
  "error_detail (AxiosError (JObj [(js ''data'', JObj [(js ''detail'', JStr [])])])) = JStr []
   \<and> Patient_sendMessage_resume
        (Rejected (AxiosError (JObj [(js ''data'', JObj [(js ''detail'', JStr [])])])))
        (Patient_init (js ''pat@clinic.org'') 1724486400000)
     = (Inr ((Patient_init (js ''pat@clinic.org'') 1724486400000)
          \<lparr>chatHistory := [\<lparr>ttype = Error, message = JStr (js ''Error processing message'')\<rparr>]\<rparr>),
        [])
   \<and> JStr (js ''Error processing message'') \<noteq> JStr []"
  by (simp add: Patient_sendMessage_resume_def Patient_sendMessage_settled_def
        Patient_error_updater_def js_or_def error_detail_def Patient_init_def js_eq_Nil_iff)

text \<open>
  Claim C10. From states that agree on input buffer, transcript and in-flight flag,
  the patient's and the doctor's \<open>sendMessage\<close> reach states that agree on them
  again, both before the \<open>await\<close> and after the call has settled, where they also
  fail alike; both suspend or both return; the effects after the call has settled are
  the same, and the request dispatched before it differs in the session identifier
  only. Neither changes its session identifier, and the two identifiers are built
  alike but for the role.
\<close>

theorem chat_engines_agree:
  assumes "chat_view p = chat_view d"
  shows "chat_view (run_state (Patient_sendMessage_start p))
           = chat_view (run_state (Doctor_sendMessage_start d))
       \<and> awaiting (Patient_sendMessage_start p) = awaiting (Doctor_sendMessage_start d)
       \<and> run_effects (Patient_sendMessage_start p) = chat_requests (chatMessage p) (sessionId p)
       \<and> run_effects (Doctor_sendMessage_start d) = chat_requests (chatMessage p) (sessionId d)
       \<and> map_sum id chat_view (fst (Patient_sendMessage_resume r p))
           = map_sum id chat_view (fst (Doctor_sendMessage_resume r d))
       \<and> snd (Patient_sendMessage_resume r p) = snd (Doctor_sendMessage_resume r d)
       \<and> sessionId (run_state (Patient_sendMessage_start p)) = sessionId p
       \<and> (case fst (Patient_sendMessage_resume r p) of
            Inl err \<Rightarrow> True | Inr p' \<Rightarrow> sessionId p' = sessionId p)
       \<and> sessionId (run_state (Doctor_sendMessage_start d)) = sessionId d
       \<and> (case fst (Doctor_sendMessage_resume r d) of
            Inl err \<Rightarrow> True | Inr d' \<Rightarrow> sessionId d' = sessionId d)
       \<and> Patient_sessionId email now = js ''patient_'' @ email @ js ''_'' @ decimal now
       \<and> Doctor_sessionId email now = js ''doctor_'' @ email @ js ''_'' @ decimal now"
proof -
  have ids: "sessionId (run_state (Patient_sendMessage_start p)) = sessionId p"
      "sessionId (run_state (Doctor_sendMessage_start d)) = sessionId d"
    by (simp_all add: Patient_sendMessage_start_def Doctor_sendMessage_start_def Let_def)
  show ?thesis
    using sendMessage_start_views[OF assms] sendMessage_resume_views[OF assms, of r] ids
      sendMessage_resume_sessionId[where r = r and p = p and d = d]
    by (simp add: Patient_sessionId_def Doctor_sessionId_def)
qed

theorem chat_engines_agree_witness:
  "chat_view (Patient_handleQuickAction (js ''hello'') (Patient_init (js ''ann@clinic.org'') 1724486400000))
     = chat_view (Doctor_handleQuickAction (js ''hello'') (Doctor_init (js ''ann@clinic.org'') 1724486400000))
   \<and> run_effects (Patient_sendMessage_start
        (Patient_handleQuickAction (js ''hello'') (Patient_init (js ''ann@clinic.org'') 1724486400000)))
     = [AxiosPost process_prompt_url
          (JObj [(js ''text'', JStr (js ''hello'')),
                 (js ''session_id'', JStr (js ''patient_'' @ js ''ann@clinic.org'' @ js ''_'' @ decimal 1724486400000))])]
   \<and> run_effects (Doctor_sendMessage_start
        (Doctor_handleQuickAction (js ''hello'') (Doctor_init (js ''ann@clinic.org'') 1724486400000)))
     = [AxiosPost process_prompt_url
          (JObj [(js ''text'', JStr (js ''hello'')),
                 (js ''session_id'', JStr (js ''doctor_'' @ js ''ann@clinic.org'' @ js ''_'' @ decimal 1724486400000))])]
   \<and> map_sum id chat_view (fst (Patient_sendMessage_resume (Resolved (JObj [(js ''response'', JStr (js ''hi''))]))
        (Patient_handleQuickAction (js ''hello'') (Patient_init (js ''ann@clinic.org'') 1724486400000))))
     = map_sum id chat_view (fst (Doctor_sendMessage_resume (Resolved (JObj [(js ''response'', JStr (js ''hi''))]))
        (Doctor_handleQuickAction (js ''hello'') (Doctor_init (js ''ann@clinic.org'') 1724486400000))))"
proof -
  let ?p = "Patient_handleQuickAction (js ''hello'') (Patient_init (js ''ann@clinic.org'') 1724486400000)"
  let ?d = "Doctor_handleQuickAction (js ''hello'') (Doctor_init (js ''ann@clinic.org'') 1724486400000)"
  have h: "chat_view ?p = chat_view ?d"
    by (simp add: chat_view_def Patient_handleQuickAction_def Doctor_handleQuickAction_def
          Patient_init_def Doctor_init_def)
  have c: "chatMessage ?p = js ''hello''"
      "sessionId ?p = Patient_sessionId (js ''ann@clinic.org'') 1724486400000"
      "sessionId ?d = Doctor_sessionId (js ''ann@clinic.org'') 1724486400000"
    by (simp_all add: Patient_handleQuickAction_def Doctor_handleQuickAction_def
          Patient_init_def Doctor_init_def)
  have t: "trim (js ''hello'') \<noteq> []"
    by (simp add: trim_def js_def is_white_space_def)
  have q: "chat_requests (js ''hello'') sid =
             [AxiosPost process_prompt_url
                (JObj [(js ''text'', JStr (js ''hello'')), (js ''session_id'', JStr sid)])]" for sid
    using t by (simp add: chat_requests_def)
  from chat_engines_agree[OF h, of "Resolved (JObj [(js ''response'', JStr (js ''hi''))])"
      "js ''ann@clinic.org''" 1724486400000]
  show ?thesis
    using h unfolding c q by metis
qed

text \<open>
  Claim C1, on the code. The first Enter puts a round-trip in flight. Text typed
  meanwhile and a second Enter, before any reply, append a second user turn and
  dispatch a second request: \<open>handleKeyPress\<close> and \<open>sendMessage\<close> do not read the
  in-flight flag, which only the Send button does.
\<close>

theorem sendMessage_reentrant_via_keypress:
  "loading (run_state (Patient_handleKeyPress \<lparr>key = js ''Enter'', shiftKey = False\<rparr>
       (Patient_onChange (js ''a'') (Patient_init (js ''pat@clinic.org'') 1724486400000))))
   \<and> Patient_handleKeyPress \<lparr>key = js ''Enter'', shiftKey = False\<rparr>
       (Patient_onChange (js ''b'')
         (run_state (Patient_handleKeyPress \<lparr>key = js ''Enter'', shiftKey = False\<rparr>
           (Patient_onChange (js ''a'') (Patient_init (js ''pat@clinic.org'') 1724486400000)))))
     = Awaiting
         ((Patient_init (js ''pat@clinic.org'') 1724486400000)
            \<lparr>chatHistory := [\<lparr>ttype = User, message = JStr (js ''a'')\<rparr>,
                             \<lparr>ttype = User, message = JStr (js ''b'')\<rparr>],
             loading := True\<rparr>)
         [PreventDefault,
          AxiosPost process_prompt_url
            (JObj [(js ''text'', JStr (js ''b'')),
                   (js ''session_id'', JStr (Patient_sessionId (js ''pat@clinic.org'') 1724486400000))])]"
  by (simp add: Patient_handleKeyPress_def Patient_sendMessage_start_def Patient_onChange_def
        Patient_init_def Let_def trim_def is_white_space_def js_def)

end
